theory Spec2Isabelle
  imports Complex_Main "HOL-Library.AList"
begin

section \<open>Constants declared outside the file\<close>

text \<open>
  \<^verbatim>\<open>scene_material.js\<close> reads the constants \<^verbatim>\<open>pc.BLEND_*\<close>, \<^verbatim>\<open>pc.BLENDMODE_*\<close>,
  \<^verbatim>\<open>pc.BLENDEQUATION_ADD\<close> and \<^verbatim>\<open>pc.CULLFACE_*\<close>, which are declared elsewhere in the
  engine. They are compared with \<^verbatim>\<open>===\<close> and \<^verbatim>\<open>switch\<close> only, so each family is an
  enumeration of pairwise different members. The last constructor of each type stands for
  any other value a field or an argument may hold.
\<close>

text \<open>Modelled from the spec: the blend factors named in the table of section 4.1
  (the declarations of \<^verbatim>\<open>pc.BLENDMODE_*\<close> are not in the file).\<close>

datatype blendmode =
    BLENDMODE_ZERO
  | BLENDMODE_ONE
  | BLENDMODE_DST_COLOR
  | BLENDMODE_SRC_ALPHA
  | BLENDMODE_ONE_MINUS_SRC_ALPHA
  | BLENDMODE_other nat

text \<open>Modelled from the spec: the blend equation of the table of section 4.1
  (the declaration of \<^verbatim>\<open>pc.BLENDEQUATION_ADD\<close> is not in the file).\<close>

datatype blendequation =
    BLENDEQUATION_ADD
  | BLENDEQUATION_other nat

text \<open>Modelled from the spec: the presets of section 4.1, and \<^verbatim>\<open>pc.BLEND_SUBTRACTIVE\<close>,
  which the documentation comment of the constructor lists (the declarations of
  \<^verbatim>\<open>pc.BLEND_*\<close> are not in the file).\<close>

datatype blendtype =
    BLEND_SUBTRACTIVE
  | BLEND_ADDITIVE
  | BLEND_NORMAL
  | BLEND_NONE
  | BLEND_PREMULTIPLIED
  | BLEND_MULTIPLICATIVE
  | BLEND_ADDITIVEALPHA
  | BLEND_other nat

text \<open>Modelled from the spec: the cull modes listed in the documentation comment of the
  constructor (the declarations of \<^verbatim>\<open>pc.CULLFACE_*\<close> are not in the file).\<close>

datatype cullface =
    CULLFACE_NONE
  | CULLFACE_BACK
  | CULLFACE_FRONT
  | CULLFACE_FRONTANDBACK

section \<open>JavaScript values\<close>

text \<open>
  The values \<^verbatim>\<open>setParameter\<close> receives. \<open>Obj n v\<close> is a plain object without a
  \<^verbatim>\<open>length\<close> property, given by what reading its \<^verbatim>\<open>name\<close> and \<^verbatim>\<open>value\<close> properties
  yields (\<open>Undefined\<close> for a property it does not have): these are the only properties of
  an object the file reads. \<open>Num n\<close> is an integer that a JavaScript number holds exactly
  (up to \<open>2 ^ 53\<close> in magnitude); as a property key it is written with its decimal digits.
  Other numbers are only stored and copied by the file.
\<close>

datatype jsval =
    Undefined
  | Null
  | Bool bool
  | Num int
  | Str string
  | Arr "jsval list"
  | Obj jsval jsval

datatype js_error = TypeError

section \<open>The material and its collaborators\<close>

type_synonym handle = nat
type_synonym shader_ref = nat
type_synonym mesh_ref = nat

text \<open>A parameter record \<^verbatim>\<open>{ scopeId: ..., data: ... }\<close>; \<open>None\<close> is \<^verbatim>\<open>null\<close>.\<close>

record parameter =
  scopeId :: "handle option"
  data :: jsval

text \<open>
  The fields the constructor assigns, with the types of the values the constructor and
  the setter assign to them. \<open>parameters\<close> is the parameter object as the table of its own
  properties, in the order \<^verbatim>\<open>for ... in\<close> enumerates them; what the object inherits is
  not in the table (see the section on parameters). \<open>variants\<close> is a table of the same
  kind. \<open>meshInstances\<close> holds references into the store of mesh instances, so
  that one mesh instance may be listed twice. \<open>id_m\<close> is the field \<^verbatim>\<open>id\<close>.
\<close>

record material =
  name :: string
  id_m :: nat
  shader :: "shader_ref option"
  variants :: "(nat \<times> shader_ref) list"
  parameters :: "(string \<times> parameter) list"
  alphaTest :: real
  blend :: bool
  blendSrc :: blendmode
  blendDst :: blendmode
  blendEquation :: blendequation
  cull :: cullface
  depthTest :: bool
  depthWrite :: bool
  redWrite :: bool
  greenWrite :: bool
  blueWrite :: bool
  alphaWrite :: bool
  meshInstances :: "mesh_ref list"

text \<open>A mesh instance, as far as the file touches it: its \<^verbatim>\<open>_shader\<close> slot.\<close>

record mesh_instance =
  shader_mi :: "shader_ref option"

text \<open>
  Calls into code outside the file are recorded in the order they are made:
  \<^verbatim>\<open>meshInstance.updateKey()\<close>, \<^verbatim>\<open>device.scope.resolve(name)\<close> and
  \<^verbatim>\<open>scopeId.setValue(data)\<close>.
\<close>

datatype event =
    UpdateKey mesh_ref
  | Resolve string
  | SetValue handle jsval

text \<open>
  Everything outside the material that the file reads or writes: the counter \<^verbatim>\<open>id\<close> of
  the enclosing closure (a natural number: the counter is exact up to \<open>2 ^ 53\<close>), the
  variable \<^verbatim>\<open>i\<close> that \<^verbatim>\<open>clearVariants\<close> assigns without declaring it (\<open>None\<close> while it
  does not exist), the mesh instances, and the calls made so far.
\<close>

record world =
  next_id :: nat
  global_i :: "nat option"
  mesh_store :: "mesh_ref \<Rightarrow> mesh_instance"
  trace :: "event list"

section \<open>Constructor\<close>

definition Material :: "world \<Rightarrow> material \<times> world" where
  "Material w =
     (\<lparr> name = ''Untitled'',
        id_m = next_id w,
        shader = None,
        variants = [],
        parameters = [],
        alphaTest = 0,
        blend = False,
        blendSrc = BLENDMODE_ONE,
        blendDst = BLENDMODE_ZERO,
        blendEquation = BLENDEQUATION_ADD,
        cull = CULLFACE_BACK,
        depthTest = True,
        depthWrite = True,
        redWrite = True,
        greenWrite = True,
        blueWrite = True,
        alphaWrite = True,
        meshInstances = [] \<rparr>,
      w\<lparr> next_id := next_id w + 1 \<rparr>)"

section \<open>The blend type property\<close>

definition get_blendType :: "material \<Rightarrow> blendtype" where
  "get_blendType this =
     (if \<not> blend this \<and> blendSrc this = BLENDMODE_ONE \<and> blendDst this = BLENDMODE_ZERO
           \<and> blendEquation this = BLENDEQUATION_ADD
      then BLEND_NONE
      else if blend this \<and> blendSrc this = BLENDMODE_SRC_ALPHA
           \<and> blendDst this = BLENDMODE_ONE_MINUS_SRC_ALPHA
           \<and> blendEquation this = BLENDEQUATION_ADD
      then BLEND_NORMAL
      else if blend this \<and> blendSrc this = BLENDMODE_ONE \<and> blendDst this = BLENDMODE_ONE
           \<and> blendEquation this = BLENDEQUATION_ADD
      then BLEND_ADDITIVE
      else if blend this \<and> blendSrc this = BLENDMODE_SRC_ALPHA \<and> blendDst this = BLENDMODE_ONE
           \<and> blendEquation this = BLENDEQUATION_ADD
      then BLEND_ADDITIVEALPHA
      else if blend this \<and> blendSrc this = BLENDMODE_DST_COLOR \<and> blendDst this = BLENDMODE_ZERO
           \<and> blendEquation this = BLENDEQUATION_ADD
      then BLEND_MULTIPLICATIVE
      else if blend this \<and> blendSrc this = BLENDMODE_ONE
           \<and> blendDst this = BLENDMODE_ONE_MINUS_SRC_ALPHA
           \<and> blendEquation this = BLENDEQUATION_ADD
      then BLEND_PREMULTIPLIED
      else BLEND_NORMAL)"

text \<open>The loop of \<^verbatim>\<open>_updateMeshInstanceKeys\<close>, one call of \<^verbatim>\<open>updateKey\<close> per entry.\<close>

fun updateKeys_loop :: "mesh_ref list \<Rightarrow> world \<Rightarrow> world" where
  "updateKeys_loop [] w = w"
| "updateKeys_loop (mi # rest) w =
     updateKeys_loop rest (w\<lparr> trace := trace w @ [UpdateKey mi] \<rparr>)"

definition updateMeshInstanceKeys :: "material \<Rightarrow> world \<Rightarrow> world" where
  "updateMeshInstanceKeys this w = updateKeys_loop (meshInstances this) w"

text \<open>The \<^verbatim>\<open>switch\<close> of the setter; a value without a \<^verbatim>\<open>case\<close> falls through.\<close>

fun blendType_switch :: "material \<Rightarrow> blendtype \<Rightarrow> material" where
  "blendType_switch this BLEND_NONE =
     this\<lparr> blend := False, blendSrc := BLENDMODE_ONE, blendDst := BLENDMODE_ZERO,
           blendEquation := BLENDEQUATION_ADD \<rparr>"
| "blendType_switch this BLEND_NORMAL =
     this\<lparr> blend := True, blendSrc := BLENDMODE_SRC_ALPHA,
           blendDst := BLENDMODE_ONE_MINUS_SRC_ALPHA, blendEquation := BLENDEQUATION_ADD \<rparr>"
| "blendType_switch this BLEND_PREMULTIPLIED =
     this\<lparr> blend := True, blendSrc := BLENDMODE_ONE,
           blendDst := BLENDMODE_ONE_MINUS_SRC_ALPHA, blendEquation := BLENDEQUATION_ADD \<rparr>"
| "blendType_switch this BLEND_ADDITIVE =
     this\<lparr> blend := True, blendSrc := BLENDMODE_ONE, blendDst := BLENDMODE_ONE,
           blendEquation := BLENDEQUATION_ADD \<rparr>"
| "blendType_switch this BLEND_ADDITIVEALPHA =
     this\<lparr> blend := True, blendSrc := BLENDMODE_SRC_ALPHA, blendDst := BLENDMODE_ONE,
           blendEquation := BLENDEQUATION_ADD \<rparr>"
| "blendType_switch this BLEND_MULTIPLICATIVE =
     this\<lparr> blend := True, blendSrc := BLENDMODE_DST_COLOR, blendDst := BLENDMODE_ZERO,
           blendEquation := BLENDEQUATION_ADD \<rparr>"
| "blendType_switch this BLEND_SUBTRACTIVE = this"
| "blendType_switch this (BLEND_other v) = this"

definition set_blendType :: "material \<Rightarrow> blendtype \<Rightarrow> world \<Rightarrow> material \<times> world" where
  "set_blendType this type w =
     (let this' = blendType_switch this type
      in (this', updateMeshInstanceKeys this' w))"

text \<open>The table of section 4.1 of the specification, row by row.\<close>

fun spec_table :: "blendtype \<Rightarrow> (bool \<times> blendmode \<times> blendmode \<times> blendequation) option" where
  "spec_table BLEND_NONE = Some (False, BLENDMODE_ONE, BLENDMODE_ZERO, BLENDEQUATION_ADD)"
| "spec_table BLEND_NORMAL =
     Some (True, BLENDMODE_SRC_ALPHA, BLENDMODE_ONE_MINUS_SRC_ALPHA, BLENDEQUATION_ADD)"
| "spec_table BLEND_PREMULTIPLIED =
     Some (True, BLENDMODE_ONE, BLENDMODE_ONE_MINUS_SRC_ALPHA, BLENDEQUATION_ADD)"
| "spec_table BLEND_ADDITIVE = Some (True, BLENDMODE_ONE, BLENDMODE_ONE, BLENDEQUATION_ADD)"
| "spec_table BLEND_ADDITIVEALPHA =
     Some (True, BLENDMODE_SRC_ALPHA, BLENDMODE_ONE, BLENDEQUATION_ADD)"
| "spec_table BLEND_MULTIPLICATIVE =
     Some (True, BLENDMODE_DST_COLOR, BLENDMODE_ZERO, BLENDEQUATION_ADD)"
| "spec_table BLEND_SUBTRACTIVE = None"
| "spec_table (BLEND_other v) = None"

definition blend_fields :: "material \<Rightarrow> bool \<times> blendmode \<times> blendmode \<times> blendequation" where
  "blend_fields this = (blend this, blendSrc this, blendDst this, blendEquation this)"

section \<open>Cloning\<close>

definition cloneInternal :: "material \<Rightarrow> material \<Rightarrow> world \<Rightarrow> material \<times> world" where
  "cloneInternal this clone w =
     (clone\<lparr> name := name this,
             id_m := next_id w,
             shader := None,
             variants := [],
             parameters := [],
             alphaTest := alphaTest this,
             blend := blend this,
             blendSrc := blendSrc this,
             blendDst := blendDst this,
             blendEquation := blendEquation this,
             cull := cull this,
             depthTest := depthTest this,
             depthWrite := depthWrite this,
             redWrite := redWrite this,
             greenWrite := greenWrite this,
             blueWrite := blueWrite this,
             alphaWrite := alphaWrite this,
             meshInstances := [] \<rparr>,
      w\<lparr> next_id := next_id w + 1 \<rparr>)"

definition clone :: "material \<Rightarrow> world \<Rightarrow> material \<times> world" where
  "clone this w = (case Material w of (c, w1) \<Rightarrow> cloneInternal this c w1)"

section \<open>The variant cache\<close>

text \<open>
  The loop of \<^verbatim>\<open>clearVariants\<close>. Its counter is the undeclared variable \<^verbatim>\<open>i\<close>, which
  lives outside the function and is read anew for each test; \<^verbatim>\<open>clearVariants\<close> assigns
  it before the loop, so the loop always finds it.
\<close>

function clearVariants_loop :: "material \<Rightarrow> world \<Rightarrow> world" where
  "clearVariants_loop this w =
     (case global_i w of
        None \<Rightarrow> w
      | Some i \<Rightarrow>
          if i < length (meshInstances this)
          then clearVariants_loop this
                 (w\<lparr> mesh_store :=
                       (mesh_store w)
                         (meshInstances this ! i :=
                            (mesh_store w (meshInstances this ! i))\<lparr> shader_mi := None \<rparr>),
                     global_i := Some (i + 1) \<rparr>)
          else w)"
  by pat_completeness auto
termination
  by (relation "measure (\<lambda>(this, w). length (meshInstances this) - the (global_i w))") auto

declare clearVariants_loop.simps [simp del]

definition clearVariants :: "material \<Rightarrow> world \<Rightarrow> material \<times> world" where
  "clearVariants this w =
     (this\<lparr> variants := [] \<rparr>, clearVariants_loop this (w\<lparr> global_i := Some 0 \<rparr>))"

section \<open>Parameters\<close>

subsection \<open>Property keys\<close>

text \<open>A property key is the string of the value (\<^verbatim>\<open>ToString\<close>).\<close>

fun show_nat :: "nat \<Rightarrow> string" where
  "show_nat n =
     (if n < 10 then [''0123456789'' ! n]
      else show_nat (n div 10) @ [''0123456789'' ! (n mod 10)])"

declare show_nat.simps [simp del]

fun join_comma :: "string list \<Rightarrow> string" where
  "join_comma [] = []"
| "join_comma [s] = s"
| "join_comma (s # t # rest) = s @ '','' @ join_comma (t # rest)"

fun ToString :: "jsval \<Rightarrow> string" where
  "ToString Undefined = ''undefined''"
| "ToString Null = ''null''"
| "ToString (Bool b) = (if b then ''true'' else ''false'')"
| "ToString (Num n) = (if n < 0 then ''-'' @ show_nat (nat (- n)) else show_nat (nat n))"
| "ToString (Str s) = s"
| "ToString (Arr xs) =
     join_comma (map (\<lambda>x. if x = Undefined \<or> x = Null then [] else ToString x) xs)"
| "ToString (Obj n v) = ''[object Object]''"

subsection \<open>Reading properties of an argument\<close>

text \<open>\<^verbatim>\<open>uniformObject.length\<close>: reading a property of \<^verbatim>\<open>undefined\<close> or \<^verbatim>\<open>null\<close> throws.\<close>

fun get_length :: "jsval \<Rightarrow> js_error + jsval" where
  "get_length Undefined = Inl TypeError"
| "get_length Null = Inl TypeError"
| "get_length (Bool b) = Inr Undefined"
| "get_length (Num n) = Inr Undefined"
| "get_length (Str s) = Inr (Num (int (length s)))"
| "get_length (Arr xs) = Inr (Num (int (length xs)))"
| "get_length (Obj n v) = Inr Undefined"

text \<open>The test \<^verbatim>\<open>if (x)\<close>.\<close>

fun truthy :: "jsval \<Rightarrow> bool" where
  "truthy Undefined = False"
| "truthy Null = False"
| "truthy (Bool b) = b"
| "truthy (Num n) = (n \<noteq> 0)"
| "truthy (Str s) = (s \<noteq> [])"
| "truthy (Arr xs) = True"
| "truthy (Obj n v) = True"

text \<open>\<^verbatim>\<open>uniformObject[0]\<close>, ..., \<^verbatim>\<open>uniformObject[length - 1]\<close>: the characters of a string
  are strings of length one.\<close>

fun elements :: "jsval \<Rightarrow> jsval list" where
  "elements (Str s) = map (\<lambda>c. Str [c]) s"
| "elements (Arr xs) = xs"
| "elements v = []"

text \<open>\<^verbatim>\<open>uniformObject.name\<close> and \<^verbatim>\<open>uniformObject.value\<close> where \<^verbatim>\<open>uniformObject.length\<close>
  is falsy: strings, arrays, numbers and booleans have no such property.\<close>

fun get_name :: "jsval \<Rightarrow> jsval" where
  "get_name (Obj n v) = n"
| "get_name x = Undefined"

fun get_value :: "jsval \<Rightarrow> jsval" where
  "get_value (Obj n v) = v"
| "get_value x = Undefined"

subsection \<open>Properties of the parameter object\<close>

text \<open>
  The parameter object is created by \<^verbatim>\<open>{}\<close>, so a read \<^verbatim>\<open>this.parameters[name]\<close> that
  finds no own property goes on to \<^verbatim>\<open>Object.prototype\<close>. These are the properties of
  \<^verbatim>\<open>Object.prototype\<close> as the language defines it (with its annex B); none of them is
  enumerable, and the value of each is an object: a function, or, for \<^verbatim>\<open>__proto__\<close>,
  \<^verbatim>\<open>Object.prototype\<close> itself. The model takes \<^verbatim>\<open>Object.prototype\<close> to have these
  properties and no other.
\<close>

definition Object_prototype_names :: "string list" where
  "Object_prototype_names =
     [''constructor'', ''toString'', ''toLocaleString'', ''valueOf'', ''hasOwnProperty'',
      ''isPrototypeOf'', ''propertyIsEnumerable'', ''__proto__'', ''__defineGetter__'',
      ''__defineSetter__'', ''__lookupGetter__'', ''__lookupSetter__'']"

text \<open>What \<^verbatim>\<open>this.parameters[name]\<close> yields: a record of the table, the object that
  \<^verbatim>\<open>Object.prototype\<close> holds under the name, or \<^verbatim>\<open>undefined\<close>.\<close>

datatype property =
    Own parameter
  | Inherited string
  | Absent

definition read_parameters :: "material \<Rightarrow> string \<Rightarrow> property" where
  "read_parameters this nm =
     (case map_of (parameters this) nm of
        Some param \<Rightarrow> Own param
      | None \<Rightarrow> if nm \<in> set Object_prototype_names then Inherited nm else Absent)"

text \<open>
  The place of a new property in the order of \<^verbatim>\<open>for ... in\<close>: the names that are array
  indices (the decimal digits of a number below \<open>2 ^ 32 - 1\<close>, without a leading zero)
  come first, in ascending order, and the other names follow in the order in which they
  were added.
\<close>

definition digit_value :: "char \<Rightarrow> nat" where
  "digit_value c = of_char c - 48"

definition parse_nat :: "string \<Rightarrow> nat" where
  "parse_nat s = foldl (\<lambda>acc c. 10 * acc + digit_value c) 0 s"

definition array_index :: "string \<Rightarrow> nat option" where
  "array_index s =
     (if s \<noteq> [] \<and> list_all (\<lambda>c. c \<in> set ''0123456789'') s
         \<and> show_nat (parse_nat s) = s \<and> parse_nat s < 4294967295
      then Some (parse_nat s) else None)"

fun insert_index ::
  "nat \<Rightarrow> string \<Rightarrow> parameter \<Rightarrow> (string \<times> parameter) list \<Rightarrow> (string \<times> parameter) list" where
  "insert_index n nm p [] = [(nm, p)]"
| "insert_index n nm p ((k, q) # rest) =
     (case array_index k of
        Some m \<Rightarrow> if m < n then (k, q) # insert_index n nm p rest else (nm, p) # (k, q) # rest
      | None \<Rightarrow> (nm, p) # (k, q) # rest)"

definition add_property ::
  "string \<Rightarrow> parameter \<Rightarrow> (string \<times> parameter) list \<Rightarrow> (string \<times> parameter) list" where
  "add_property nm p ps =
     (case array_index nm of
        None \<Rightarrow> ps @ [(nm, p)]
      | Some n \<Rightarrow> insert_index n nm p ps)"

subsection \<open>getParameter and setParameter\<close>

definition getParameter :: "material \<Rightarrow> jsval \<Rightarrow> property" where
  "getParameter this nm = read_parameters this (ToString nm)"

text \<open>
  How a call of \<^verbatim>\<open>setParameter\<close> ends other than by returning with \<^verbatim>\<open>Object.prototype\<close>
  as it was: by an exception, or after the assignment of a value to the property
  \<^verbatim>\<open>data\<close> of \<^verbatim>\<open>Object.prototype\<close>. After that assignment every object inherits a
  property \<^verbatim>\<open>data\<close>, against what the model takes \<^verbatim>\<open>Object.prototype\<close> to be, so the
  model follows the call no further.
\<close>

datatype ending =
    Throws js_error
  | Assigns_Object_prototype_data jsval

text \<open>
  The last statement of \<^verbatim>\<open>setParameter\<close>. With a record of the table, \<^verbatim>\<open>param.data = data\<close>
  replaces the data of the record. With an inherited object it assigns to the property
  \<^verbatim>\<open>data\<close> of that object and the table stays as it is: the functions are not read
  again by the file, \<^verbatim>\<open>Object.prototype\<close> is the case above. Without either, a record
  is added.
\<close>

definition store_parameter :: "material \<Rightarrow> string \<Rightarrow> jsval \<Rightarrow> (ending \<times> material) + material" where
  "store_parameter this nm d =
     (case read_parameters this nm of
        Own param \<Rightarrow>
          Inr (this\<lparr> parameters := AList.update nm (param\<lparr> data := d \<rparr>) (parameters this) \<rparr>)
      | Inherited m \<Rightarrow>
          if m = ''__proto__'' then Inl (Assigns_Object_prototype_data d, this) else Inr this
      | Absent \<Rightarrow>
          Inr (this\<lparr> parameters :=
                     add_property nm \<lparr> scopeId = None, data = d \<rparr> (parameters this) \<rparr>))"

text \<open>
  \<^verbatim>\<open>setParameter\<close> calls itself, so its first argument bounds the depth of the calls:
  \<open>None\<close> means that the call did not return within that depth. \<open>Some (Inl (e, this'))\<close>
  is the ending \<open>e\<close>, with the material as the calls before it left it;
  \<open>Some (Inr this')\<close> is the material after the call.
\<close>

type_synonym setParameter_result = "((ending \<times> material) + material) option"

fun setParameter :: "nat \<Rightarrow> material \<Rightarrow> jsval \<Rightarrow> jsval \<Rightarrow> setParameter_result"
  and setParameter_each :: "nat \<Rightarrow> material \<Rightarrow> jsval list \<Rightarrow> setParameter_result"
where
  "setParameter 0 this arg d = None"
| "setParameter (Suc depth) this arg d =
     (if d = Undefined then
        (case get_length arg of
           Inl e \<Rightarrow> Some (Inl (Throws e, this))
         | Inr len \<Rightarrow>
             if truthy len then setParameter_each depth this (elements arg)
             else Some (store_parameter this (ToString (get_name arg)) (get_value arg)))
      else Some (store_parameter this (ToString arg) d))"
| "setParameter_each depth this [] = Some (Inr this)"
| "setParameter_each depth this (x # rest) =
     (case setParameter depth this x Undefined of
        None \<Rightarrow> None
      | Some (Inl err) \<Rightarrow> Some (Inl err)
      | Some (Inr this') \<Rightarrow> setParameter_each depth this' rest)"

subsection \<open>setParameters\<close>

text \<open>
  One round of the loop of \<^verbatim>\<open>setParameters\<close>. \<^verbatim>\<open>device\<close> is not declared in the file;
  its \<^verbatim>\<open>scope.resolve\<close> is the argument \<open>resolve\<close>.
\<close>

definition setParameters_step ::
  "(string \<Rightarrow> handle) \<Rightarrow> string \<Rightarrow> parameter \<Rightarrow> world \<Rightarrow> parameter \<times> world" where
  "setParameters_step resolve paramName param w =
     (case scopeId param of
        None \<Rightarrow>
          (let h = resolve paramName
           in (param\<lparr> scopeId := Some h \<rparr>,
               w\<lparr> trace := trace w @ [Resolve paramName, SetValue h (data param)] \<rparr>))
      | Some h \<Rightarrow> (param, w\<lparr> trace := trace w @ [SetValue h (data param)] \<rparr>))"

fun setParameters_loop ::
  "(string \<Rightarrow> handle) \<Rightarrow> (string \<times> parameter) list \<Rightarrow> world
     \<Rightarrow> (string \<times> parameter) list \<times> world" where
  "setParameters_loop resolve [] w = ([], w)"
| "setParameters_loop resolve ((paramName, param) # rest) w =
     (case setParameters_step resolve paramName param w of
        (param', w1) \<Rightarrow>
          (case setParameters_loop resolve rest w1 of
             (rest', w2) \<Rightarrow> ((paramName, param') # rest', w2)))"

definition setParameters :: "(string \<Rightarrow> handle) \<Rightarrow> material \<Rightarrow> world \<Rightarrow> material \<times> world" where
  "setParameters resolve this w =
     (case setParameters_loop resolve (parameters this) w of
        (ps, w') \<Rightarrow> (this\<lparr> parameters := ps \<rparr>, w'))"

section \<open>What the specification expects of setParameters\<close>

text \<open>The handle an entry is bound to after \<^verbatim>\<open>setParameters\<close>: the one it already
  holds, or else the one the resolver gives for its name.\<close>

definition bound_handle :: "(string \<Rightarrow> handle) \<Rightarrow> string \<Rightarrow> parameter \<Rightarrow> handle" where
  "bound_handle resolve nm p = (case scopeId p of None \<Rightarrow> resolve nm | Some h \<Rightarrow> h)"

fun bound_entry :: "(string \<Rightarrow> handle) \<Rightarrow> string \<times> parameter \<Rightarrow> string \<times> parameter" where
  "bound_entry resolve (nm, p) = (nm, p\<lparr> scopeId := Some (bound_handle resolve nm p) \<rparr>)"

text \<open>The value of an entry pushed through its handle.\<close>

fun pushed_value :: "(string \<Rightarrow> handle) \<Rightarrow> string \<times> parameter \<Rightarrow> event" where
  "pushed_value resolve (nm, p) = SetValue (bound_handle resolve nm p) (data p)"

text \<open>The outside calls expected for one entry: a resolution when its handle is
  \<^verbatim>\<open>null\<close>, then the push of its value.\<close>

fun entry_events :: "(string \<Rightarrow> handle) \<Rightarrow> string \<times> parameter \<Rightarrow> event list" where
  "entry_events resolve (nm, p) =
     (if scopeId p = None then [Resolve nm] else []) @ [pushed_value resolve (nm, p)]"

section \<open>Arguments on which setParameter returns\<close>

text \<open>Arguments that hold no string of a length other than zero, where \<^verbatim>\<open>setParameter\<close>
  looks: at the argument itself and at the elements of arrays.\<close>

fun string_free :: "jsval \<Rightarrow> bool" where
  "string_free (Str s) = (s = [])"
| "string_free (Arr xs) = list_all string_free xs"
| "string_free v = True"

text \<open>How deep arrays are nested in an argument.\<close>

fun nesting :: "jsval \<Rightarrow> nat" where
  "nesting (Arr xs) = Suc (fold max (map nesting xs) 0)"
| "nesting v = 0"

section \<open>Concrete states used in the examples\<close>

definition world0 :: world where
  "world0 =
     \<lparr> next_id = 0, global_i = None, mesh_store = (\<lambda>r. \<lparr> shader_mi = Some r \<rparr>), trace = [] \<rparr>"

text \<open>A material made by the constructor and then changed field by field, and the world
  the constructor leaves.\<close>

definition example_world :: world where
  "example_world = snd (Material world0)"

definition example_material :: material where
  "example_material =
     (fst (Material world0))
       \<lparr> name := ''glass'',
         shader := Some 4,
         variants := [(0, 4)],
         parameters :=
           [(''x'', \<lparr> scopeId = Some 7, data = Num 1 \<rparr>),
            (''y'', \<lparr> scopeId = None, data = Str ''v'' \<rparr>)],
         alphaTest := 1 / 2,
         blend := True,
         blendSrc := BLENDMODE_SRC_ALPHA,
         blendDst := BLENDMODE_ONE,
         cull := CULLFACE_FRONT,
         depthWrite := False,
         alphaWrite := False,
         meshInstances := [3, 5] \<rparr>"

text \<open>The calls into outside code made between two states of the world.\<close>

definition events_since :: "world \<Rightarrow> world \<Rightarrow> event list" where
  "events_since w w' = drop (length (trace w)) (trace w')"

section \<open>Properties of the blend type\<close>

lemma updateKeys_loop_trace:
  "trace (updateKeys_loop ms w) = trace w @ map UpdateKey ms"
  by (induction ms arbitrary: w) simp_all

lemma count_list_map_UpdateKey:
  "count_list (map UpdateKey ms) (UpdateKey r) = count_list ms r"
  by (induction ms) simp_all

lemma set_blendType_trace:
  "trace (snd (set_blendType this t w)) = trace w @ map UpdateKey (meshInstances this)"
  by (cases t)
     (simp_all add: set_blendType_def updateMeshInstanceKeys_def updateKeys_loop_trace Let_def)

text \<open>
  C1. For each of the six presets of the table, setting the blend type to the preset and
  reading it back gives the preset; and any material whose four blend fields are the row
  of a preset reads as that preset, whatever assigned the fields.
\<close>

theorem blendType_roundtrip:
  assumes "spec_table t = Some q"
  shows "get_blendType (fst (set_blendType this t w)) = t
         \<and> (blend_fields m = q \<longrightarrow> get_blendType m = t)"
  using assms
  by (cases t) (auto simp: set_blendType_def get_blendType_def blend_fields_def Let_def)

theorem blendType_roundtrip_witness:
  "spec_table BLEND_PREMULTIPLIED
     = Some (True, BLENDMODE_ONE, BLENDMODE_ONE_MINUS_SRC_ALPHA, BLENDEQUATION_ADD)
   \<and> get_blendType (fst (set_blendType (fst (Material world0)) BLEND_PREMULTIPLIED world0))
       = BLEND_PREMULTIPLIED
   \<and> blend_fields
        ((fst (Material world0))\<lparr> blend := True, blendDst := BLENDMODE_ONE_MINUS_SRC_ALPHA \<rparr>)
       = (True, BLENDMODE_ONE, BLENDMODE_ONE_MINUS_SRC_ALPHA, BLENDEQUATION_ADD)
   \<and> get_blendType
        ((fst (Material world0))\<lparr> blend := True, blendDst := BLENDMODE_ONE_MINUS_SRC_ALPHA \<rparr>)
       = BLEND_PREMULTIPLIED"
proof -
  have row: "spec_table BLEND_PREMULTIPLIED
     = Some (True, BLENDMODE_ONE, BLENDMODE_ONE_MINUS_SRC_ALPHA, BLENDEQUATION_ADD)"
    by simp
  have fields: "blend_fields
        ((fst (Material world0))\<lparr> blend := True, blendDst := BLENDMODE_ONE_MINUS_SRC_ALPHA \<rparr>)
       = (True, BLENDMODE_ONE, BLENDMODE_ONE_MINUS_SRC_ALPHA, BLENDEQUATION_ADD)"
    by (simp add: blend_fields_def Material_def)
  from blendType_roundtrip [OF row, of "fst (Material world0)" world0
      "(fst (Material world0))\<lparr> blend := True, blendDst := BLENDMODE_ONE_MINUS_SRC_ALPHA \<rparr>"]
    row fields
  show ?thesis by blast
qed

text \<open>
  C2. For a preset of the table, the setter leaves the material with the four blend
  fields of the preset's row, all four assigned, and no other field changed.
\<close>

theorem set_blendType_assigns_row:
  assumes "spec_table t = Some (e, s, d, q)"
  shows "fst (set_blendType this t w)
           = this\<lparr> blend := e, blendSrc := s, blendDst := d, blendEquation := q \<rparr>"
  using assms by (cases t) (auto simp: set_blendType_def Let_def)

theorem set_blendType_assigns_row_witness:
  "spec_table BLEND_MULTIPLICATIVE
     = Some (True, BLENDMODE_DST_COLOR, BLENDMODE_ZERO, BLENDEQUATION_ADD)
   \<and> blend_fields
        (fst (set_blendType
               ((fst (Material world0))\<lparr> blendEquation := BLENDEQUATION_other 1 \<rparr>)
               BLEND_MULTIPLICATIVE world0))
       = (True, BLENDMODE_DST_COLOR, BLENDMODE_ZERO, BLENDEQUATION_ADD)"
proof -
  have row: "spec_table BLEND_MULTIPLICATIVE
     = Some (True, BLENDMODE_DST_COLOR, BLENDMODE_ZERO, BLENDEQUATION_ADD)"
    by simp
  show ?thesis
    using row
      set_blendType_assigns_row [OF row,
        of "(fst (Material world0))\<lparr> blendEquation := BLENDEQUATION_other 1 \<rparr>" world0]
    by (simp add: blend_fields_def)
qed

text \<open>
  C3. A material whose four blend fields are the row of no preset of the table reads as
  \<open>BLEND_NORMAL\<close>. The getter has no failing branch: it returns a blend type for every
  material.
\<close>

theorem get_blendType_fallback:
  assumes "\<forall>t. spec_table t \<noteq> Some (blend_fields m)"
  shows "get_blendType m = BLEND_NORMAL"
proof (rule ccontr)
  assume "get_blendType m \<noteq> BLEND_NORMAL"
  then have "spec_table (get_blendType m) = Some (blend_fields m)"
    by (auto simp: get_blendType_def blend_fields_def split: if_splits)
  with assms show False by blast
qed

theorem get_blendType_fallback_witness:
  "(\<forall>t. spec_table t
          \<noteq> Some (blend_fields ((fst (Material world0))\<lparr> blend := True \<rparr>)))
   \<and> get_blendType ((fst (Material world0))\<lparr> blend := True \<rparr>) = BLEND_NORMAL"
proof -
  have unmatched:
    "\<forall>t. spec_table t \<noteq> Some (blend_fields ((fst (Material world0))\<lparr> blend := True \<rparr>))"
  proof
    fix t
    show "spec_table t \<noteq> Some (blend_fields ((fst (Material world0))\<lparr> blend := True \<rparr>))"
      by (cases t) (simp_all add: blend_fields_def Material_def)
  qed
  from unmatched get_blendType_fallback [OF unmatched] show ?thesis by blast
qed

text \<open>
  C4. Whatever value is written through the setter, the calls it makes into outside code
  are one \<^verbatim>\<open>updateKey()\<close> for each entry of \<open>meshInstances\<close>, in the order of the list:
  as many calls as entries, and on each mesh instance as many calls as it has entries.
\<close>

theorem set_blendType_updateKey_calls:
  "events_since w (snd (set_blendType this t w)) = map UpdateKey (meshInstances this)
   \<and> length (events_since w (snd (set_blendType this t w))) = length (meshInstances this)
   \<and> (\<forall>r. count_list (events_since w (snd (set_blendType this t w))) (UpdateKey r)
            = count_list (meshInstances this) r)"
  by (simp add: events_since_def set_blendType_trace count_list_map_UpdateKey)

text \<open>
  C5. A value that is none of the six presets of the table leaves the material as it was.
  The setter has no failing branch; it still makes the \<^verbatim>\<open>updateKey()\<close> calls of C4.
\<close>

theorem set_blendType_unrecognized:
  assumes "spec_table t = None"
  shows "fst (set_blendType this t w) = this"
  using assms by (cases t) (simp_all add: set_blendType_def Let_def)

theorem set_blendType_unrecognized_witness:
  "spec_table BLEND_SUBTRACTIVE = None
   \<and> fst (set_blendType
            ((fst (Material world0))\<lparr> blend := True, meshInstances := [3, 5] \<rparr>)
            BLEND_SUBTRACTIVE world0)
       = (fst (Material world0))\<lparr> blend := True, meshInstances := [3, 5] \<rparr>"
proof -
  have none: "spec_table BLEND_SUBTRACTIVE = None"
    by simp
  from none set_blendType_unrecognized [OF none] show ?thesis by blast
qed

section \<open>Properties of the parameter table\<close>

lemma map_of_insert_index:
  "map_of ps nm = None \<Longrightarrow> map_of (insert_index n nm p ps) = (map_of ps)(nm \<mapsto> p)"
proof (induction ps)
  case Nil
  show ?case by simp
next
  case (Cons e ps)
  obtain k q where e: "e = (k, q)"
    by (cases e)
  from Cons.prems e have k: "k \<noteq> nm" and rest: "map_of ps nm = None"
    by (auto split: if_splits)
  from Cons.IH [OF rest] k show ?case
    by (auto simp: e fun_upd_twist split: option.splits)
qed

lemma map_of_add_property:
  "map_of ps nm = None \<Longrightarrow> map_of (add_property nm p ps) = (map_of ps)(nm \<mapsto> p)"
  by (auto simp: add_property_def map_of_insert_index map_add_def fun_eq_iff
        split: option.splits)

lemma read_parameters_own_name:
  "nm \<notin> set Object_prototype_names \<Longrightarrow>
     read_parameters this nm = (case map_of (parameters this) nm of Some p \<Rightarrow> Own p | None \<Rightarrow> Absent)"
  by (simp add: read_parameters_def split: option.splits)

lemma store_parameter_own_name:
  assumes "nm \<notin> set Object_prototype_names"
  shows "\<exists>this'. store_parameter this nm d = Inr this'
     \<and> this' = this\<lparr> parameters := parameters this' \<rparr>
     \<and> map_of (parameters this') =
         (map_of (parameters this))
           (nm \<mapsto> (case map_of (parameters this) nm of
                      Some p \<Rightarrow> p\<lparr> data := d \<rparr>
                    | None \<Rightarrow> \<lparr> scopeId = None, data = d \<rparr>))"
proof (cases "map_of (parameters this) nm")
  case None
  with assms show ?thesis
    by (simp add: store_parameter_def read_parameters_def map_of_add_property)
next
  case (Some p)
  then show ?thesis
    by (simp add: store_parameter_def read_parameters_def update_conv')
qed

text \<open>
  For a string \<open>name\<close> that \<^verbatim>\<open>Object.prototype\<close> does not hold and a \<open>value\<close> other than
  \<^verbatim>\<open>undefined\<close>, \<^verbatim>\<open>setParameter(name, value)\<close> returns without a further call of itself.
  If the table has a record for \<open>name\<close>, the record keeps its handle and gets the value; if
  it has none, it gets a record with the handle \<^verbatim>\<open>null\<close> and the value. No other record
  and no other field of the material changes.
\<close>

lemma setParameter_upsert_own_name:
  assumes "d \<noteq> Undefined" and "nm \<notin> set Object_prototype_names"
  shows "\<exists>this'. setParameter (Suc depth) this (Str nm) d = Some (Inr this')
     \<and> (case getParameter this (Str nm) of
           Own p \<Rightarrow> getParameter this' (Str nm) = Own (p\<lparr> data := d \<rparr>)
         | Inherited m \<Rightarrow> False
         | Absent \<Rightarrow> getParameter this' (Str nm) = Own \<lparr> scopeId = None, data = d \<rparr>)
     \<and> (\<forall>k. k \<noteq> nm \<longrightarrow> getParameter this' (Str k) = getParameter this (Str k))
     \<and> this' = this\<lparr> parameters := parameters this' \<rparr>"
proof -
  obtain this' where stored: "store_parameter this nm d = Inr this'"
    and fields: "this' = this\<lparr> parameters := parameters this' \<rparr>"
    and table: "map_of (parameters this') =
         (map_of (parameters this))
           (nm \<mapsto> (case map_of (parameters this) nm of
                      Some p \<Rightarrow> p\<lparr> data := d \<rparr>
                    | None \<Rightarrow> \<lparr> scopeId = None, data = d \<rparr>))"
    using store_parameter_own_name [OF assms(2)] by blast
  have call: "setParameter (Suc depth) this (Str nm) d = Some (Inr this')"
    using assms(1) stored by simp
  have same: "case getParameter this (Str nm) of
           Own p \<Rightarrow> getParameter this' (Str nm) = Own (p\<lparr> data := d \<rparr>)
         | Inherited m \<Rightarrow> False
         | Absent \<Rightarrow> getParameter this' (Str nm) = Own \<lparr> scopeId = None, data = d \<rparr>"
    using assms(2) by (simp add: getParameter_def read_parameters_def table split: option.splits)
  have other: "\<forall>k. k \<noteq> nm \<longrightarrow> getParameter this' (Str k) = getParameter this (Str k)"
    by (simp add: getParameter_def read_parameters_def table)
  from call same other fields show ?thesis by blast
qed

text \<open>
  With a name that \<^verbatim>\<open>Object.prototype\<close> holds (other than \<^verbatim>\<open>__proto__\<close>) and that the table
  does not hold, the call leaves the material as it was: no record is added, and reading
  the name yields the inherited object before and after.
\<close>

lemma setParameter_inherited_name:
  assumes "d \<noteq> Undefined" and "nm \<in> set Object_prototype_names" and "nm \<noteq> ''__proto__''"
    and "map_of (parameters this) nm = None"
  shows "setParameter (Suc depth) this (Str nm) d = Some (Inr this)
     \<and> getParameter this (Str nm) = Inherited nm"
  using assms by (simp add: store_parameter_def read_parameters_def getParameter_def)

text \<open>
  C6. \<^verbatim>\<open>setParameter("constructor", 2)\<close> on a new material, whose table has no record for
  the name, does not add a record: the call returns with the material as it was, the
  table empty, and reading the name yields the inherited \<^verbatim>\<open>Object\<close> function and not a
  record with the value 2.
\<close>

theorem setParameter_constructor_not_stored:
  "parameters (fst (Material world0)) = []
   \<and> setParameter (Suc depth) (fst (Material world0)) (Str ''constructor'') (Num 2)
       = Some (Inr (fst (Material world0)))
   \<and> getParameter (fst (Material world0)) (Str ''constructor'') = Inherited ''constructor''"
  by (simp add: Material_def store_parameter_def read_parameters_def getParameter_def
        Object_prototype_names_def)

lemma setParameter_upsert_example:
  "getParameter example_material (Str ''x'') = Own \<lparr> scopeId = Some 7, data = Num 1 \<rparr>
   \<and> setParameter (Suc 0) example_material (Str ''x'') (Num 2)
       = Some (Inr (example_material
                      \<lparr> parameters :=
                          [(''x'', \<lparr> scopeId = Some 7, data = Num 2 \<rparr>),
                           (''y'', \<lparr> scopeId = None, data = Str ''v'' \<rparr>)] \<rparr>))
   \<and> getParameter example_material (Str ''z'') = Absent
   \<and> setParameter (Suc 0) example_material (Str ''z'') (Num 2)
       = Some (Inr (example_material
                      \<lparr> parameters :=
                          [(''x'', \<lparr> scopeId = Some 7, data = Num 1 \<rparr>),
                           (''y'', \<lparr> scopeId = None, data = Str ''v'' \<rparr>),
                           (''z'', \<lparr> scopeId = None, data = Num 2 \<rparr>)] \<rparr>))"
  by (simp add: example_material_def Material_def getParameter_def store_parameter_def
        read_parameters_def Object_prototype_names_def add_property_def array_index_def)

section \<open>Properties of clone\<close>

text \<open>
  C7. For a material whose id was given out by the counter (it is below the counter),
  \<^verbatim>\<open>clone()\<close> returns a material whose id is not the source's: it is at or above the
  counter as it stood, and below the counter as the call leaves it. The name and the
  render states are the source's; the parameter table, the variant cache and the list of
  mesh instances are empty, and the shader is \<^verbatim>\<open>null\<close>.
\<close>

theorem clone_copies:
  assumes "id_m this < next_id w"
  shows "id_m (fst (clone this w)) \<noteq> id_m this
     \<and> next_id w \<le> id_m (fst (clone this w))
     \<and> id_m (fst (clone this w)) < next_id (snd (clone this w))
     \<and> name (fst (clone this w)) = name this
     \<and> alphaTest (fst (clone this w)) = alphaTest this
     \<and> blend (fst (clone this w)) = blend this
     \<and> blendSrc (fst (clone this w)) = blendSrc this
     \<and> blendDst (fst (clone this w)) = blendDst this
     \<and> blendEquation (fst (clone this w)) = blendEquation this
     \<and> cull (fst (clone this w)) = cull this
     \<and> depthTest (fst (clone this w)) = depthTest this
     \<and> depthWrite (fst (clone this w)) = depthWrite this
     \<and> redWrite (fst (clone this w)) = redWrite this
     \<and> greenWrite (fst (clone this w)) = greenWrite this
     \<and> blueWrite (fst (clone this w)) = blueWrite this
     \<and> alphaWrite (fst (clone this w)) = alphaWrite this
     \<and> parameters (fst (clone this w)) = []
     \<and> variants (fst (clone this w)) = []
     \<and> meshInstances (fst (clone this w)) = []
     \<and> shader (fst (clone this w)) = None"
  using assms by (simp add: clone_def Material_def cloneInternal_def)

theorem clone_copies_witness:
  "id_m example_material < next_id example_world
   \<and> id_m example_material = 0
   \<and> id_m (fst (clone example_material example_world)) = 2
   \<and> next_id (snd (clone example_material example_world)) = 3
   \<and> name (fst (clone example_material example_world)) = ''glass''
   \<and> alphaTest (fst (clone example_material example_world)) = 1 / 2
   \<and> blend (fst (clone example_material example_world))
   \<and> blendSrc (fst (clone example_material example_world)) = BLENDMODE_SRC_ALPHA
   \<and> cull (fst (clone example_material example_world)) = CULLFACE_FRONT
   \<and> parameters example_material \<noteq> []
   \<and> parameters (fst (clone example_material example_world)) = []
   \<and> meshInstances example_material = [3, 5]
   \<and> meshInstances (fst (clone example_material example_world)) = []
   \<and> shader (fst (clone example_material example_world)) = None"
proof -
  have below: "id_m example_material < next_id example_world"
    by (simp add: example_material_def example_world_def Material_def world0_def)
  show ?thesis
    using below clone_copies [OF below]
    by (simp add: example_material_def example_world_def Material_def world0_def
          clone_def cloneInternal_def)
qed

section \<open>Properties of setParameters\<close>

lemma setParameters_loop_eq:
  "setParameters_loop resolve ps w =
     (map (bound_entry resolve) ps,
      w\<lparr> trace := trace w @ concat (map (entry_events resolve) ps) \<rparr>)"
proof (induction ps arbitrary: w)
  case Nil
  show ?case by simp
next
  case (Cons e ps)
  obtain nm p where e: "e = (nm, p)"
    by (cases e)
  show ?case
    by (cases "scopeId p")
       (simp_all add: e Cons.IH setParameters_step_def bound_handle_def Let_def)
qed

lemma bound_entry_again: "bound_entry resolve (bound_entry resolve e) = bound_entry resolve e"
  by (cases e) (simp add: bound_handle_def)

lemma entry_events_again:
  "entry_events resolve (bound_entry resolve e) = [pushed_value resolve e]"
  by (cases e) (simp add: bound_handle_def)

text \<open>
  C8. \<^verbatim>\<open>setParameters()\<close> visits every entry of the parameter table in turn. It leaves
  each entry with a handle: the one it held, or, where it held \<^verbatim>\<open>null\<close>, the one the
  resolver gives for the name. The outside calls it makes are, entry by entry, that
  resolution (only where the handle was \<^verbatim>\<open>null\<close>) followed by the push of the entry's
  value through the handle. Called again, it changes nothing in the table and makes the
  pushes only, through the same handles: no name is resolved a second time.
\<close>

theorem setParameters_binds_and_pushes:
  "parameters (fst (setParameters resolve this w)) = map (bound_entry resolve) (parameters this)
   \<and> events_since w (snd (setParameters resolve this w))
       = concat (map (entry_events resolve) (parameters this))
   \<and> fst (setParameters resolve (fst (setParameters resolve this w)) w')
       = fst (setParameters resolve this w)
   \<and> events_since w' (snd (setParameters resolve (fst (setParameters resolve this w)) w'))
       = map (pushed_value resolve) (parameters this)"
  by (simp add: setParameters_def setParameters_loop_eq events_since_def
        bound_entry_again entry_events_again comp_def)

lemma setParameters_example:
  "setParameters length example_material example_world =
     (example_material
        \<lparr> parameters :=
            [(''x'', \<lparr> scopeId = Some 7, data = Num 1 \<rparr>),
             (''y'', \<lparr> scopeId = Some 1, data = Str ''v'' \<rparr>)] \<rparr>,
      example_world
        \<lparr> trace := [SetValue 7 (Num 1), Resolve ''y'', SetValue 1 (Str ''v'')] \<rparr>)"
  by (simp add: setParameters_def setParameters_step_def example_material_def
        example_world_def Material_def world0_def)

section \<open>Properties of clearVariants\<close>

lemma clearVariants_loop_clears:
  assumes "global_i w = Some i"
    and "\<forall>j<i. j < length (meshInstances this)
           \<longrightarrow> shader_mi (mesh_store w (meshInstances this ! j)) = None"
  shows "\<forall>j<length (meshInstances this).
           shader_mi (mesh_store (clearVariants_loop this w) (meshInstances this ! j)) = None"
  using assms
proof (induction this w arbitrary: i rule: clearVariants_loop.induct)
  case (1 this w)
  show ?case
  proof (cases "i < length (meshInstances this)")
    case True
    let ?w = "w\<lparr> mesh_store :=
                 (mesh_store w)
                   (meshInstances this ! i :=
                      (mesh_store w (meshInstances this ! i))\<lparr> shader_mi := None \<rparr>),
               global_i := Some (i + 1) \<rparr>"
    have step: "clearVariants_loop this w = clearVariants_loop this ?w"
      using "1.prems"(1) True by (subst clearVariants_loop.simps) simp
    have inv: "\<forall>j<i + 1. j < length (meshInstances this)
           \<longrightarrow> shader_mi (mesh_store ?w (meshInstances this ! j)) = None"
      using "1.prems"(2) by (auto simp: less_Suc_eq)
    have "global_i ?w = Some (i + 1)"
      by simp
    from "1.IH" [OF "1.prems"(1) True this inv] step show ?thesis
      by simp
  next
    case False
    then have "clearVariants_loop this w = w"
      using "1.prems"(1) by (subst clearVariants_loop.simps) simp
    with "1.prems"(2) False show ?thesis
      by auto
  qed
qed

lemma clearVariants_loop_others:
  assumes "global_i w = Some i" and "r \<notin> set (meshInstances this)"
  shows "mesh_store (clearVariants_loop this w) r = mesh_store w r"
  using assms
proof (induction this w arbitrary: i rule: clearVariants_loop.induct)
  case (1 this w)
  show ?case
  proof (cases "i < length (meshInstances this)")
    case True
    let ?w = "w\<lparr> mesh_store :=
                 (mesh_store w)
                   (meshInstances this ! i :=
                      (mesh_store w (meshInstances this ! i))\<lparr> shader_mi := None \<rparr>),
               global_i := Some (i + 1) \<rparr>"
    have step: "clearVariants_loop this w = clearVariants_loop this ?w"
      using "1.prems"(1) True by (subst clearVariants_loop.simps) simp
    have "global_i ?w = Some (i + 1)"
      by simp
    from "1.IH" [OF "1.prems"(1) True this "1.prems"(2)]
    have "mesh_store (clearVariants_loop this ?w) r = mesh_store ?w r" .
    moreover have "meshInstances this ! i \<noteq> r"
      using True "1.prems"(2) by auto
    ultimately show ?thesis
      using step by simp
  next
    case False
    then show ?thesis
      using "1.prems"(1) by (subst clearVariants_loop.simps) simp
  qed
qed

text \<open>
  C9. \<^verbatim>\<open>clearVariants()\<close> leaves the variant cache of the material empty and the
  \<^verbatim>\<open>_shader\<close> slot of every mesh instance in \<open>meshInstances\<close> \<^verbatim>\<open>null\<close>; a mesh instance
  that is not in the list is left as it was.
\<close>

theorem clearVariants_clears:
  "variants (fst (clearVariants this w)) = []
   \<and> (\<forall>mi \<in> set (meshInstances this).
         shader_mi (mesh_store (snd (clearVariants this w)) mi) = None)
   \<and> (\<forall>r. r \<notin> set (meshInstances this)
         \<longrightarrow> mesh_store (snd (clearVariants this w)) r = mesh_store w r)"
proof -
  let ?w0 = "w\<lparr> global_i := Some 0 \<rparr>"
  have "\<forall>j<length (meshInstances this).
           shader_mi (mesh_store (clearVariants_loop this ?w0) (meshInstances this ! j)) = None"
    by (rule clearVariants_loop_clears [of ?w0 0]) simp_all
  then have cleared: "\<forall>mi \<in> set (meshInstances this).
         shader_mi (mesh_store (snd (clearVariants this w)) mi) = None"
    by (auto simp: clearVariants_def in_set_conv_nth)
  have others: "\<forall>r. r \<notin> set (meshInstances this)
         \<longrightarrow> mesh_store (snd (clearVariants this w)) r = mesh_store w r"
    using clearVariants_loop_others [of ?w0 0 _ this] by (simp add: clearVariants_def)
  show ?thesis
    using cleared others by (simp add: clearVariants_def)
qed

theorem clearVariants_clears_witness:
  "variants example_material = [(0, 4)]
   \<and> variants (fst (clearVariants example_material example_world)) = []
   \<and> 3 \<in> set (meshInstances example_material)
   \<and> shader_mi (mesh_store example_world 3) = Some 3
   \<and> shader_mi (mesh_store (snd (clearVariants example_material example_world)) 3) = None
   \<and> 5 \<in> set (meshInstances example_material)
   \<and> shader_mi (mesh_store (snd (clearVariants example_material example_world)) 5) = None
   \<and> 4 \<notin> set (meshInstances example_material)
   \<and> shader_mi (mesh_store (snd (clearVariants example_material example_world)) 4) = Some 4"
proof -
  have list: "meshInstances example_material = [3, 5]"
    by (simp add: example_material_def)
  have store: "mesh_store example_world = (\<lambda>r. \<lparr> shader_mi = Some r \<rparr>)"
    by (simp add: example_world_def Material_def world0_def)
  have cache: "variants example_material = [(0, 4)]"
    by (simp add: example_material_def)
  show ?thesis
    using clearVariants_clears [of example_material example_world]
    by (simp add: list store cache)
qed

section \<open>Calls of setParameter that do not return\<close>

lemma setParameter_string_loops:
  "setParameter depth this (Str (c # s)) Undefined = None"
proof (induction depth arbitrary: this c s)
  case 0
  show ?case by simp
next
  case (Suc depth)
  have "setParameter depth this (Str [c]) Undefined = None"
    by (rule Suc.IH)
  then show ?case by simp
qed

text \<open>
  C10. \<^verbatim>\<open>setParameter("a")\<close> does not reach the statement that stores a record: however
  deep the calls may nest, the call does not return. The argument has the length 1, so
  the call calls itself on \<^verbatim>\<open>"a"[0]\<close>, which is \<^verbatim>\<open>"a"\<close> again.
\<close>

theorem setParameter_string_never_returns:
  "setParameter depth (fst (Material world0)) (Str ''a'') Undefined = None"
  by (rule setParameter_string_loops)

text \<open>
  The same call on an argument that holds no string of a length other than zero comes to
  an end (with a material, with the exception of reading \<^verbatim>\<open>length\<close> of \<^verbatim>\<open>undefined\<close>
  or \<^verbatim>\<open>null\<close>, or with the assignment to \<^verbatim>\<open>Object.prototype\<close>) as soon as the calls
  may nest deeper than the arrays of the argument do.
\<close>

lemma setParameter_each_returns:
  assumes "\<And>x this. x \<in> set xs \<Longrightarrow> \<exists>r. setParameter depth this x Undefined = Some r"
  shows "\<exists>r. setParameter_each depth this xs = Some r"
  using assms
proof (induction xs arbitrary: this)
  case Nil
  show ?case by simp
next
  case (Cons x xs)
  obtain r where r: "setParameter depth this x Undefined = Some r"
    using Cons.prems [of x this] by auto
  show ?case
  proof (cases r)
    case (Inl err)
    with r show ?thesis by simp
  next
    case (Inr this')
    have "\<exists>r. setParameter_each depth this' xs = Some r"
      by (rule Cons.IH) (simp add: Cons.prems)
    with r Inr show ?thesis by simp
  qed
qed

lemma fold_max_init: "a \<le> fold max ns (a::nat)"
proof (induction ns arbitrary: a)
  case Nil
  show ?case by simp
next
  case (Cons n ns)
  have "a \<le> max n a"
    by simp
  also have "max n a \<le> fold max ns (max n a)"
    by (rule Cons.IH)
  finally show ?case
    by simp
qed

lemma fold_max_ge: "x \<in> set ns \<Longrightarrow> x \<le> fold max ns (a::nat)"
proof (induction ns arbitrary: a)
  case Nil
  then show ?case by simp
next
  case (Cons n ns)
  show ?case
  proof (cases "x = n")
    case True
    have "n \<le> max n a"
      by simp
    also have "max n a \<le> fold max ns (max n a)"
      by (rule fold_max_init)
    finally show ?thesis
      using True by simp
  next
    case False
    with Cons.prems have "x \<in> set ns"
      by simp
    then have "x \<le> fold max ns (max n a)"
      by (rule Cons.IH)
    then show ?thesis
      by simp
  qed
qed

lemma setParameter_string_free_returns:
  "string_free v \<Longrightarrow> nesting v < depth \<Longrightarrow> \<exists>r. setParameter depth this v Undefined = Some r"
proof (induction v arbitrary: depth this)
  case (Arr xs)
  from Arr.prems(2) obtain k where depth: "depth = Suc k"
    by (cases depth) auto
  have each: "\<exists>r. setParameter_each k this' xs = Some r" for this'
  proof (rule setParameter_each_returns)
    fix x this''
    assume x: "x \<in> set xs"
    then have "nesting x \<le> fold max (map nesting xs) 0"
      by (intro fold_max_ge) simp
    with Arr.prems(2) depth have "nesting x < k"
      by simp
    moreover from x Arr.prems(1) have "string_free x"
      by (simp add: list_all_iff)
    ultimately show "\<exists>r. setParameter k this'' x Undefined = Some r"
      using Arr.IH [OF x] by blast
  qed
  show ?case
    using each [of this] by (simp add: depth)
qed (case_tac depth; simp)+

lemma setParameter_empty_sequence:
  "setParameter (Suc depth) this (Arr []) Undefined
     = Some (store_parameter this ''undefined'' Undefined)"
  by simp

section \<open>The model on concrete inputs\<close>

lemma set_blendType_example:
  "set_blendType example_material BLEND_ADDITIVE example_world =
     (example_material \<lparr> blendSrc := BLENDMODE_ONE \<rparr>,
      example_world \<lparr> trace := [UpdateKey 3, UpdateKey 5] \<rparr>)"
  by (simp add: set_blendType_def updateMeshInstanceKeys_def example_material_def
        example_world_def Material_def world0_def)

lemma clearVariants_example:
  "global_i (snd (clearVariants example_material example_world)) = Some 2
   \<and> map (\<lambda>r. shader_mi (mesh_store (snd (clearVariants example_material example_world)) r))
        [3, 4, 5] = [None, Some 4, None]"
  by (simp add: clearVariants_def clearVariants_loop.simps example_material_def
        example_world_def Material_def world0_def)

lemma setParameter_twice_example:
  "setParameter (Suc 0) (fst (Material world0)) (Str ''x'') (Num 1)
     = Some (Inr ((fst (Material world0))
                    \<lparr> parameters := [(''x'', \<lparr> scopeId = None, data = Num 1 \<rparr>)] \<rparr>))
   \<and> setParameter (Suc 0)
         ((fst (Material world0))
            \<lparr> parameters := [(''x'', \<lparr> scopeId = None, data = Num 1 \<rparr>)] \<rparr>)
         (Str ''x'') (Num 2)
     = Some (Inr ((fst (Material world0))
                    \<lparr> parameters := [(''x'', \<lparr> scopeId = None, data = Num 2 \<rparr>)] \<rparr>))"
  by (simp add: Material_def store_parameter_def read_parameters_def
        Object_prototype_names_def add_property_def array_index_def)

lemma setParameter_sequence_example:
  "setParameter 2 (fst (Material world0))
     (Arr [Obj (Str ''x'') (Num 1), Obj (Str ''y'') (Num 2), Obj (Str ''x'') (Num 3)]) Undefined
     = Some (Inr ((fst (Material world0))
                    \<lparr> parameters := [(''x'', \<lparr> scopeId = None, data = Num 3 \<rparr>),
                                     (''y'', \<lparr> scopeId = None, data = Num 2 \<rparr>)] \<rparr>))"
  by (simp add: numeral_2_eq_2 Material_def store_parameter_def read_parameters_def
        Object_prototype_names_def add_property_def array_index_def)

lemma array_index_examples:
  "array_index ''9'' = Some 9 \<and> array_index ''10'' = Some 10 \<and> array_index ''0'' = Some 0
   \<and> array_index ''07'' = None \<and> array_index ''b'' = None \<and> array_index '''' = None
   \<and> array_index ''4294967294'' = Some 4294967294 \<and> array_index ''4294967295'' = None"
  by (simp add: array_index_def parse_nat_def digit_value_def show_nat.simps)

lemma setParameter_order_example:
  "setParameter 2 (fst (Material world0))
     (Arr [Obj (Str ''b'') (Num 1), Obj (Str ''10'') (Num 2), Obj (Str ''9'') (Num 3),
           Obj (Str ''a'') (Num 4)]) Undefined
     = Some (Inr ((fst (Material world0))
                    \<lparr> parameters := [(''9'', \<lparr> scopeId = None, data = Num 3 \<rparr>),
                                     (''10'', \<lparr> scopeId = None, data = Num 2 \<rparr>),
                                     (''b'', \<lparr> scopeId = None, data = Num 1 \<rparr>),
                                     (''a'', \<lparr> scopeId = None, data = Num 4 \<rparr>)] \<rparr>))"
  by (simp add: numeral_2_eq_2 Material_def store_parameter_def read_parameters_def
        Object_prototype_names_def add_property_def array_index_def parse_nat_def
        digit_value_def show_nat.simps)

lemma setParameter_proto_example:
  "setParameter 2 (fst (Material world0))
     (Arr [Obj (Str ''x'') (Num 1), Obj (Str ''__proto__'') (Num 2), Obj (Str ''y'') (Num 3)])
     Undefined
     = Some (Inl (Assigns_Object_prototype_data (Num 2),
                  (fst (Material world0))
                    \<lparr> parameters := [(''x'', \<lparr> scopeId = None, data = Num 1 \<rparr>)] \<rparr>))"
  by code_simp

end
